theory Spec2Isabelle
  imports Complex_Main
begin

section \<open>JavaScript strings and digits\<close>

text \<open>
  A JavaScript string is modelled as a \<^typ>\<open>string\<close>: the list of its code units, for
  code units up to 0xFF.  Its \<open>length\<close> is the list's length.  The class \<open>\d\<close> of a
  JavaScript regular expression is exactly the ten characters \<open>0\<close> to \<open>9\<close>; \<open>\D\<close> is its
  complement.
\<close>

definition is_digit :: "char \<Rightarrow> bool" where
  "is_digit c = (c \<in> set ''0123456789'')"

definition digit_char :: "nat \<Rightarrow> char" where
  "digit_char d = ''0123456789'' ! (d mod 10)"

definition digit_val :: "char \<Rightarrow> nat" where
  "digit_val c = length (takeWhile (\<lambda>x. x \<noteq> c) ''0123456789'')"

section \<open>JavaScript numbers\<close>

text \<open>
  A JavaScript number is not-a-number, one of the two infinities, the negative zero, or a
  finite value, held as a rational; \<open>Num 0\<close> is the positive zero.  \<open>num_lt\<close> is the
  operator \<^verbatim>\<open><\<close>, \<open>num_ge\<close> is \<^verbatim>\<open>>=\<close>; both are false as soon as one operand is
  not-a-number, and both take the two zeros as equal.  \<open>num_mul\<close> and \<open>num_add\<close> are
  \<^verbatim>\<open>*\<close> and \<^verbatim>\<open>+\<close> with the exact product and sum of finite operands: the rounding
  of a result to the nearest double is not modelled.
\<close>

datatype number = NaN | PosInf | NegInf | NegZero | Num rat

fun finite_value :: "number \<Rightarrow> rat option" where
  "finite_value (Num a) = Some a"
| "finite_value NegZero = Some 0"
| "finite_value x = None"

fun is_negative :: "number \<Rightarrow> bool" where
  "is_negative (Num a) = (a < 0)"
| "is_negative NegZero = True"
| "is_negative NegInf = True"
| "is_negative x = False"

fun num_lt :: "number \<Rightarrow> number \<Rightarrow> bool" where
  "num_lt NaN y = False"
| "num_lt x NaN = False"
| "num_lt PosInf y = False"
| "num_lt x NegInf = False"
| "num_lt NegInf y = True"
| "num_lt x PosInf = True"
| "num_lt NegZero NegZero = False"
| "num_lt NegZero (Num b) = (0 < b)"
| "num_lt (Num a) NegZero = (a < 0)"
| "num_lt (Num a) (Num b) = (a < b)"

definition num_ge :: "number \<Rightarrow> number \<Rightarrow> bool" where
  "num_ge x y = (x \<noteq> NaN \<and> y \<noteq> NaN \<and> \<not> num_lt x y)"

fun num_sgn :: "number \<Rightarrow> rat" where
  "num_sgn NaN = 0"
| "num_sgn PosInf = 1"
| "num_sgn NegInf = - 1"
| "num_sgn NegZero = 0"
| "num_sgn (Num a) = sgn a"


text \<open>
  A product that is zero is negative exactly when one operand is negative and the other
  is not; a sum that is zero is negative only when both operands are the negative zero.
  An infinity times a zero, and the sum of the two infinities, are not-a-number.
\<close>

definition num_mul :: "number \<Rightarrow> number \<Rightarrow> number" where
  "num_mul x y =
     (case (finite_value x, finite_value y) of
        (Some a, Some b) \<Rightarrow>
          if a * b = 0 \<and> is_negative x \<noteq> is_negative y then NegZero else Num (a * b)
      | _ \<Rightarrow>
          if x = NaN \<or> y = NaN \<or> num_sgn x * num_sgn y = 0 then NaN
          else if 0 < num_sgn x * num_sgn y then PosInf else NegInf)"

definition num_add :: "number \<Rightarrow> number \<Rightarrow> number" where
  "num_add x y =
     (case (finite_value x, finite_value y) of
        (Some a, Some b) \<Rightarrow> if x = NegZero \<and> y = NegZero then NegZero else Num (a + b)
      | _ \<Rightarrow>
          if x = NaN \<or> y = NaN then NaN
          else if (x = PosInf \<and> y = NegInf) \<or> (x = NegInf \<and> y = PosInf) then NaN
          else if x = PosInf \<or> y = PosInf then PosInf else NegInf)"








section \<open>utils/form-helpers.ts\<close>

subsection \<open>validateDate\<close>

text \<open>
  \<^verbatim>\<open>/^(0[1-9]|[12][0-9]|3[01])-(0[1-9]|1[0-2])-\d{4}$/\<close>: the expression is anchored on
  both sides and every alternative has a fixed width, so it matches strings of exactly ten
  code units.  \<open>day_digits\<close> is the first group, \<open>month_digits\<close> the second, one disjunct
  per alternative.
\<close>

definition day_digits :: "char \<Rightarrow> char \<Rightarrow> bool" where
  "day_digits a b =
     ((a = CHR ''0'' \<and> b \<in> set ''123456789'') \<or>
      (a \<in> set ''12'' \<and> is_digit b) \<or>
      (a = CHR ''3'' \<and> b \<in> set ''01''))"

definition month_digits :: "char \<Rightarrow> char \<Rightarrow> bool" where
  "month_digits a b =
     ((a = CHR ''0'' \<and> b \<in> set ''123456789'') \<or>
      (a = CHR ''1'' \<and> b \<in> set ''012''))"

fun validateDate :: "string \<Rightarrow> bool" where
  "validateDate [d1, d2, s1, m1, m2, s2, y1, y2, y3, y4] =
     (day_digits d1 d2 \<and> s1 = CHR ''-'' \<and> month_digits m1 m2 \<and> s2 = CHR ''-'' \<and>
      is_digit y1 \<and> is_digit y2 \<and> is_digit y3 \<and> is_digit y4)"
| "validateDate _ = False"

text \<open>
  The dashed pattern in the words of the specification: a day number, a month number and a
  year number, written with two, two and four decimal digits.
\<close>

definition two_digits :: "nat \<Rightarrow> string" where
  "two_digits n = [digit_char (n div 10), digit_char n]"

definition four_digits :: "nat \<Rightarrow> string" where
  "four_digits n =
     [digit_char (n div 1000), digit_char (n div 100), digit_char (n div 10), digit_char n]"

definition dashed_date :: "nat \<Rightarrow> nat \<Rightarrow> nat \<Rightarrow> string" where
  "dashed_date dd mm yyyy = two_digits dd @ ''-'' @ two_digits mm @ ''-'' @ four_digits yyyy"

subsection \<open>formatPhoneNumber\<close>

text \<open>
  \<^verbatim>\<open>number.replace(/\D/g, "")\<close> deletes every code unit that is not a digit.
\<close>

definition strip_non_digits :: "string \<Rightarrow> string" where
  "strip_non_digits number = filter is_digit number"

text \<open>
  \<^verbatim>\<open>cleaned.replace(/(\d{2})(\d{4})(\d{6})/, "+$1 $2 $3")\<close>: the expression has no
  anchors and no \<open>g\<close> flag, so the leftmost run of twelve digits is replaced, once, and the
  text before and after it is kept.  \<open>digits_at n s\<close> says that the expression \<open>\d{n}\<close>
  matches at the start of \<open>s\<close>.
\<close>

definition digits_at :: "nat \<Rightarrow> string \<Rightarrow> bool" where
  "digits_at n s = (n \<le> length s \<and> list_all is_digit (take n s))"

definition regroup_2_4_6 :: "string \<Rightarrow> string" where
  "regroup_2_4_6 s =
     ''+'' @ take 2 s @ '' '' @ take 4 (drop 2 s) @ '' '' @ take 6 (drop 6 s) @ drop 12 s"

fun replace_2_4_6 :: "string \<Rightarrow> string" where
  "replace_2_4_6 [] = []"
| "replace_2_4_6 (c # cs) =
     (if digits_at 12 (c # cs) then regroup_2_4_6 (c # cs) else c # replace_2_4_6 cs)"

definition formatPhoneNumber :: "string \<Rightarrow> string" where
  "formatPhoneNumber number = replace_2_4_6 (strip_non_digits number)"

subsection \<open>formatCurrency and parseCurrency\<close>





subsection \<open>formatDate\<close>




section \<open>Schemas\<close>

text \<open>
  A zod schema is modelled as the function from a value to the list of issues that
  \<open>safeParse\<close> reports for it; the value is accepted when the list is empty.  An issue
  is the path of the field and the message, \<open>None\<close> when the schema gives no message and
  zod writes its own.  The values are typed as the schema infers them: an optional field
  is an \<open>option\<close>, so the only type error left is a number that is not-a-number.
  The test behind \<open>.email()\<close> belongs to zod; it is the parameter \<open>isEmail\<close>.
\<close>

datatype path_elem = Key string | Index nat

type_synonym path = "path_elem list"

type_synonym issue = "path \<times> string option"

text \<open>\<open>.min(n, message)\<close> and \<open>.max(n, message)\<close> of a string or an array.\<close>

definition z_min :: "nat \<Rightarrow> string option \<Rightarrow> path \<Rightarrow> 'a list \<Rightarrow> issue list" where
  "z_min n msg p v = (if length v < n then [(p, msg)] else [])"

definition z_max :: "nat \<Rightarrow> string option \<Rightarrow> path \<Rightarrow> 'a list \<Rightarrow> issue list" where
  "z_max n msg p v = (if n < length v then [(p, msg)] else [])"

text \<open>\<open>.regex(/^\d{n}$/, message)\<close>.\<close>

definition z_regex_digits :: "nat \<Rightarrow> string option \<Rightarrow> path \<Rightarrow> string \<Rightarrow> issue list" where
  "z_regex_digits n msg p v = (if length v = n \<and> list_all is_digit v then [] else [(p, msg)])"

definition z_email :: "(string \<Rightarrow> bool) \<Rightarrow> string option \<Rightarrow> path \<Rightarrow> string \<Rightarrow> issue list" where
  "z_email isEmail msg p v = (if isEmail v then [] else [(p, msg)])"

text \<open>
  \<open>z.number()\<close> rejects not-a-number; \<open>.min(k)\<close> reports a value below \<open>k\<close> and
  \<open>.max(k)\<close> a value above \<open>k\<close>.
\<close>

definition z_number :: "path \<Rightarrow> number \<Rightarrow> issue list" where
  "z_number p v = (if v = NaN then [(p, None)] else [])"

definition z_number_min :: "rat \<Rightarrow> string option \<Rightarrow> path \<Rightarrow> number \<Rightarrow> issue list" where
  "z_number_min k msg p v = (if num_lt v (Num k) then [(p, msg)] else [])"

definition z_number_max :: "rat \<Rightarrow> string option \<Rightarrow> path \<Rightarrow> number \<Rightarrow> issue list" where
  "z_number_max k msg p v = (if num_lt (Num k) v then [(p, msg)] else [])"

definition z_literal :: "'a \<Rightarrow> path \<Rightarrow> 'a \<Rightarrow> issue list" where
  "z_literal lit p v = (if v = lit then [] else [(p, None)])"

definition z_refine :: "('a \<Rightarrow> bool) \<Rightarrow> string option \<Rightarrow> path \<Rightarrow> 'a \<Rightarrow> issue list" where
  "z_refine ok msg p v = (if ok v then [] else [(p, msg)])"

text \<open>\<open>z.array(element)\<close> checks every element under its index; \<open>.optional()\<close> accepts
  the absent value.\<close>

definition z_array :: "(path \<Rightarrow> 'a \<Rightarrow> issue list) \<Rightarrow> path \<Rightarrow> 'a list \<Rightarrow> issue list" where
  "z_array element p v = concat (map (\<lambda>(i, x). element (p @ [Index i]) x) (enumerate 0 v))"

definition z_optional :: "(path \<Rightarrow> 'a \<Rightarrow> issue list) \<Rightarrow> path \<Rightarrow> 'a option \<Rightarrow> issue list" where
  "z_optional inner p v = (case v of None \<Rightarrow> [] | Some x \<Rightarrow> inner p x)"

subsection \<open>components/ui/ssas/corporate-form.tsx: corporateFormSchema\<close>

text \<open>The entries of \<open>contributorManagement\<close>.\<close>

record management_person =
  firstName :: string
  middleName :: "string option"
  surname :: string
  position :: string

definition managementPersonSchema :: "path \<Rightarrow> management_person \<Rightarrow> issue list" where
  "managementPersonSchema p r = concat
     [z_min 1 (Some ''First name is required'') (p @ [Key ''firstName'']) (firstName r),
      z_min 1 (Some ''Surname is required'') (p @ [Key ''surname'']) (surname r),
      z_min 1 (Some ''Position is required'') (p @ [Key ''position'']) (position r)]"

record corporate =
  pstrId :: string
  pensionSchemeName :: string
  contactName :: string
  positionInOrganization :: string
  pensionProvider :: string
  telephone :: string
  mobile :: string
  email :: string
  addressType :: string
  address1 :: string
  address2 :: string
  address3 :: "string option"
  address4 :: "string option"
  postcode :: string
  country :: string
  isCurrentAddress :: bool
  isPermanentAddress :: bool
  isCommunicationAddress :: bool
  howManyToSign :: number
  howManyFromCorporateTrustee :: number
  howManyMembers :: number
  isOccupationalScheme :: bool
  permitAssignmentOfInterest :: bool
  hasDeductionFromEmployeeWages :: bool
  dateOfRegistration :: string
  hasCorporateTrustee :: bool
  depositPerAnnum :: number
  annualOutgoings :: number
  anticipatedActivity :: number
  anticipatedTransactions :: number
  countryOfPayments :: "string list"
  schemeRegistrationCountry :: string
  contributorLegalName :: string
  contributorTradingName :: "string option"
  contributorAddress1 :: string
  contributorAddress2 :: "string option"
  contributorAddress3 :: "string option"
  contributorAddress4 :: "string option"
  contributorPostcode :: string
  contributorCountry :: string
  contributorDateOfIncorporation :: string
  contributorDateOfRegistration :: string
  contributorDateStartedTrading :: string
  contributorNatureOfBusiness :: string
  contributorCountriesOperatesIn :: "string list"
  contributorManagement :: "management_person list"
  professionalCoSignatory :: string
  coSignCompanyName :: string
  coSignAddress :: string
  coSignTelephone :: string
  coSignEmail :: string
  regulatorReferenceNumber :: string
  tcAcknowledgement :: bool
  accountType :: "string list"
  openingBalance :: string
  sourceOfInitialFunds :: string
  sourceOfFunds :: "string list"
  otherSourceOfFunds :: "string option"
  valueOfFunds :: string
  countryOfFunds :: "string list"

definition corporateFormSchema :: "(string \<Rightarrow> bool) \<Rightarrow> path \<Rightarrow> corporate \<Rightarrow> issue list" where
  "corporateFormSchema isEmail p r = concat
     [z_min 1 (Some ''PSTR ID is required'') (p @ [Key ''pstrId'']) (pstrId r),
      z_min 1 (Some ''Pension scheme name is required'')
        (p @ [Key ''pensionSchemeName'']) (pensionSchemeName r),
      z_min 1 (Some ''Contact name is required'') (p @ [Key ''contactName'']) (contactName r),
      z_min 1 (Some ''Position is required'')
        (p @ [Key ''positionInOrganization'']) (positionInOrganization r),
      z_min 1 (Some ''Pension provider is required'')
        (p @ [Key ''pensionProvider'']) (pensionProvider r),
      z_regex_digits 14 (Some ''Phone number must be 14 digits including country code'')
        (p @ [Key ''telephone'']) (telephone r),
      z_regex_digits 14 (Some ''Mobile number must be 14 digits'')
        (p @ [Key ''mobile'']) (mobile r),
      z_email isEmail None (p @ [Key ''email'']) (email r),
      z_max 65 (Some ''Email must be less than 65 characters'') (p @ [Key ''email'']) (email r),
      z_min 1 (Some ''Address type is required'') (p @ [Key ''addressType'']) (addressType r),
      z_min 1 (Some ''Building number is required'') (p @ [Key ''address1'']) (address1 r),
      z_min 1 (Some ''Street name is required'') (p @ [Key ''address2'']) (address2 r),
      z_min 1 (Some ''Postcode is required'') (p @ [Key ''postcode'']) (postcode r),
      z_min 1 (Some ''Country is required'') (p @ [Key ''country'']) (country r),
      z_number (p @ [Key ''howManyToSign'']) (howManyToSign r),
      z_number_min 1 (Some ''Number of signatories is required'')
        (p @ [Key ''howManyToSign'']) (howManyToSign r),
      z_number (p @ [Key ''howManyFromCorporateTrustee'']) (howManyFromCorporateTrustee r),
      z_number_min 0 None
        (p @ [Key ''howManyFromCorporateTrustee'']) (howManyFromCorporateTrustee r),
      z_number (p @ [Key ''howManyMembers'']) (howManyMembers r),
      z_number_min 1 (Some ''Number of members is required'')
        (p @ [Key ''howManyMembers'']) (howManyMembers r),
      z_min 1 (Some ''Date of registration is required'')
        (p @ [Key ''dateOfRegistration'']) (dateOfRegistration r),
      z_number (p @ [Key ''depositPerAnnum'']) (depositPerAnnum r),
      z_number_min 0 (Some ''Deposit per annum is required'')
        (p @ [Key ''depositPerAnnum'']) (depositPerAnnum r),
      z_number (p @ [Key ''annualOutgoings'']) (annualOutgoings r),
      z_number_min 0 (Some ''Annual outgoings is required'')
        (p @ [Key ''annualOutgoings'']) (annualOutgoings r),
      z_number (p @ [Key ''anticipatedActivity'']) (anticipatedActivity r),
      z_number_min 0 (Some ''Anticipated activity is required'')
        (p @ [Key ''anticipatedActivity'']) (anticipatedActivity r),
      z_number (p @ [Key ''anticipatedTransactions'']) (anticipatedTransactions r),
      z_number_min 0 (Some ''Anticipated transactions is required'')
        (p @ [Key ''anticipatedTransactions'']) (anticipatedTransactions r),
      z_min 1 (Some ''At least one country is required'')
        (p @ [Key ''countryOfPayments'']) (countryOfPayments r),
      z_literal ''United Kingdom''
        (p @ [Key ''schemeRegistrationCountry'']) (schemeRegistrationCountry r),
      z_min 1 (Some ''Legal name is required'')
        (p @ [Key ''contributorLegalName'']) (contributorLegalName r),
      z_min 1 (Some ''Address line 1 is required'')
        (p @ [Key ''contributorAddress1'']) (contributorAddress1 r),
      z_max 8 (Some ''Postcode must be 8 characters or less'')
        (p @ [Key ''contributorPostcode'']) (contributorPostcode r),
      z_min 1 (Some ''Country is required'')
        (p @ [Key ''contributorCountry'']) (contributorCountry r),
      z_min 1 (Some ''Date of incorporation is required'')
        (p @ [Key ''contributorDateOfIncorporation'']) (contributorDateOfIncorporation r),
      z_min 1 (Some ''Date of registration is required'')
        (p @ [Key ''contributorDateOfRegistration'']) (contributorDateOfRegistration r),
      z_min 1 (Some ''Date started trading is required'')
        (p @ [Key ''contributorDateStartedTrading'']) (contributorDateStartedTrading r),
      z_min 1 (Some ''Nature of business is required'')
        (p @ [Key ''contributorNatureOfBusiness'']) (contributorNatureOfBusiness r),
      z_min 1 (Some ''At least one country is required'')
        (p @ [Key ''contributorCountriesOperatesIn'']) (contributorCountriesOperatesIn r),
      z_min 1 (Some ''At least one management person is required'')
        (p @ [Key ''contributorManagement'']) (contributorManagement r),
      z_array managementPersonSchema
        (p @ [Key ''contributorManagement'']) (contributorManagement r),
      z_min 1 (Some ''Professional co-signatory is required'')
        (p @ [Key ''professionalCoSignatory'']) (professionalCoSignatory r),
      z_min 1 (Some ''Company name is required'')
        (p @ [Key ''coSignCompanyName'']) (coSignCompanyName r),
      z_min 1 (Some ''Address is required'') (p @ [Key ''coSignAddress'']) (coSignAddress r),
      z_min 1 (Some ''Telephone is required'')
        (p @ [Key ''coSignTelephone'']) (coSignTelephone r),
      z_email isEmail (Some ''Valid email is required'')
        (p @ [Key ''coSignEmail'']) (coSignEmail r),
      z_min 1 (Some ''Regulator reference number is required'')
        (p @ [Key ''regulatorReferenceNumber'']) (regulatorReferenceNumber r),
      z_refine (\<lambda>val. val = True) (Some ''You must acknowledge the terms and conditions'')
        (p @ [Key ''tcAcknowledgement'']) (tcAcknowledgement r),
      z_min 1 (Some ''At least one account type is required'')
        (p @ [Key ''accountType'']) (accountType r),
      z_min 1 (Some ''Opening balance is required'')
        (p @ [Key ''openingBalance'']) (openingBalance r),
      z_min 1 (Some ''Source of initial funds is required'')
        (p @ [Key ''sourceOfInitialFunds'']) (sourceOfInitialFunds r),
      z_min 1 (Some ''At least one source of funds is required'')
        (p @ [Key ''sourceOfFunds'']) (sourceOfFunds r),
      z_min 1 (Some ''Value of funds is required'')
        (p @ [Key ''valueOfFunds'']) (valueOfFunds r),
      z_min 1 (Some ''At least one country is required'')
        (p @ [Key ''countryOfFunds'']) (countryOfFunds r)]"

subsection \<open>components/ui/ssas/individual-form.tsx: individualFormSchema\<close>

record previous_address =
  address1 :: string
  address2 :: string
  address3 :: "string option"
  address4 :: "string option"
  postcode :: string
  country :: string
  yearsAtAddress :: number
  monthsAtAddress :: number

definition previousAddressSchema :: "path \<Rightarrow> previous_address \<Rightarrow> issue list" where
  "previousAddressSchema p r = concat
     [z_min 1 (Some ''Address line 1 is required'') (p @ [Key ''address1'']) (address1 r),
      z_min 1 (Some ''Address line 2 is required'') (p @ [Key ''address2'']) (address2 r),
      z_min 1 (Some ''Postcode is required'') (p @ [Key ''postcode'']) (postcode r),
      z_min 1 (Some ''Country is required'') (p @ [Key ''country'']) (country r),
      z_number (p @ [Key ''yearsAtAddress'']) (yearsAtAddress r),
      z_number_min 0 None (p @ [Key ''yearsAtAddress'']) (yearsAtAddress r),
      z_number (p @ [Key ''monthsAtAddress'']) (monthsAtAddress r),
      z_number_min 0 None (p @ [Key ''monthsAtAddress'']) (monthsAtAddress r),
      z_number_max 11 None (p @ [Key ''monthsAtAddress'']) (monthsAtAddress r)]"

record communication_address =
  address1 :: string
  address2 :: string
  address3 :: "string option"
  address4 :: "string option"
  postcode :: string
  country :: string

definition communicationAddressSchema :: "path \<Rightarrow> communication_address \<Rightarrow> issue list" where
  "communicationAddressSchema p r = concat
     [z_min 1 (Some ''Address line 1 is required'') (p @ [Key ''address1'']) (address1 r),
      z_min 1 (Some ''Address line 2 is required'') (p @ [Key ''address2'']) (address2 r),
      z_min 1 (Some ''Postcode is required'') (p @ [Key ''postcode'']) (postcode r),
      z_min 1 (Some ''Country is required'') (p @ [Key ''country'']) (country r)]"

record individual =
  pstrId :: string
  employeeId :: number
  title :: string
  firstName :: string
  middleName :: "string option"
  surname :: string
  isSigner :: bool
  isTrusteeOfScheme :: bool
  dateOfBirth :: string
  gender :: string
  primaryNationality :: string
  countryOfBirth :: string
  hasDualNationality :: bool
  secondNationality :: "string option"
  telephone :: string
  mobile :: string
  email :: string
  typeOfEmployment :: string
  occupation :: string
  marketingPreferences :: "string list"
  address1 :: string
  address2 :: string
  address3 :: "string option"
  address4 :: "string option"
  postcode :: string
  country :: string
  isCurrentAddress :: bool
  isPermanentAddress :: bool
  isCommunicationAddress :: bool
  yearsAtAddress :: number
  monthsAtAddress :: number
  previousAddresses :: "previous_address list"
  communicationAddress :: "communication_address option"
  taxContributingCountry :: "string list"
  foreignTinId :: "string option"

definition individualFormSchema :: "(string \<Rightarrow> bool) \<Rightarrow> path \<Rightarrow> individual \<Rightarrow> issue list" where
  "individualFormSchema isEmail p r = concat
     [z_min 1 (Some ''PSTR ID is required'') (p @ [Key ''pstrId'']) (pstrId r),
      z_number (p @ [Key ''employeeId'']) (employeeId r),
      z_number_min 1 (Some ''Employee ID is required'')
        (p @ [Key ''employeeId'']) (employeeId r),
      z_min 1 (Some ''Title is required'') (p @ [Key ''title'']) (title r),
      z_min 1 (Some ''First name is required'') (p @ [Key ''firstName'']) (firstName r),
      z_min 1 (Some ''Surname is required'') (p @ [Key ''surname'']) (surname r),
      z_min 1 (Some ''Date of birth is required'') (p @ [Key ''dateOfBirth'']) (dateOfBirth r),
      z_min 1 (Some ''Gender is required'') (p @ [Key ''gender'']) (gender r),
      z_min 1 (Some ''Primary nationality is required'')
        (p @ [Key ''primaryNationality'']) (primaryNationality r),
      z_min 1 (Some ''Country of birth is required'')
        (p @ [Key ''countryOfBirth'']) (countryOfBirth r),
      z_regex_digits 14 (Some ''Phone number must be 14 digits including country code'')
        (p @ [Key ''telephone'']) (telephone r),
      z_regex_digits 10 (Some ''Mobile number must be 10 digits'')
        (p @ [Key ''mobile'']) (mobile r),
      z_email isEmail (Some ''Please enter a valid email address'')
        (p @ [Key ''email'']) (email r),
      z_min 1 (Some ''Type of employment is required'')
        (p @ [Key ''typeOfEmployment'']) (typeOfEmployment r),
      z_min 1 (Some ''Occupation is required'') (p @ [Key ''occupation'']) (occupation r),
      z_min 1 (Some ''Address line 1 is required'') (p @ [Key ''address1'']) (address1 r),
      z_min 1 (Some ''Address line 2 is required'') (p @ [Key ''address2'']) (address2 r),
      z_min 1 (Some ''Postcode is required'') (p @ [Key ''postcode'']) (postcode r),
      z_max 8 (Some ''Postcode must be 8 characters or less'')
        (p @ [Key ''postcode'']) (postcode r),
      z_min 1 (Some ''Country is required'') (p @ [Key ''country'']) (country r),
      z_number (p @ [Key ''yearsAtAddress'']) (yearsAtAddress r),
      z_number_min 0 None (p @ [Key ''yearsAtAddress'']) (yearsAtAddress r),
      z_number (p @ [Key ''monthsAtAddress'']) (monthsAtAddress r),
      z_number_min 0 None (p @ [Key ''monthsAtAddress'']) (monthsAtAddress r),
      z_number_max 11 None (p @ [Key ''monthsAtAddress'']) (monthsAtAddress r),
      z_array previousAddressSchema (p @ [Key ''previousAddresses'']) (previousAddresses r),
      z_optional communicationAddressSchema
        (p @ [Key ''communicationAddress'']) (communicationAddress r),
      z_min 1 (Some ''At least one tax contributing country is required'')
        (p @ [Key ''taxContributingCountry'']) (taxContributingCountry r)]"

section \<open>components/ui/ssas/individual-form.tsx: the form\<close>

text \<open>
  The state of \<open>IndividualForm\<close>: the values held by \<open>useForm\<close> and the three
  \<open>useState\<close> flags.  Every handler runs to its end before the next event is taken, so
  a handler is a function from the state before the event to the state after it.
\<close>

record form_state =
  formValues :: individual
  showPreviousAddresses :: bool
  showCommunicationAddress :: bool
  showSecondNationality :: bool

definition defaultValues :: individual where
  "defaultValues =
     \<lparr>pstrId = '''', employeeId = Num 0, title = '''', firstName = '''',
      middleName = Some '''', surname = '''', isSigner = False, isTrusteeOfScheme = False,
      dateOfBirth = '''', gender = '''', primaryNationality = '''', countryOfBirth = '''',
      hasDualNationality = False, secondNationality = Some '''', telephone = '''',
      mobile = '''', email = '''', typeOfEmployment = '''', occupation = '''',
      marketingPreferences = [], address1 = '''', address2 = '''', address3 = Some '''',
      address4 = Some '''', postcode = '''', country = '''', isCurrentAddress = True,
      isPermanentAddress = True, isCommunicationAddress = True, yearsAtAddress = Num 0,
      monthsAtAddress = Num 0, previousAddresses = [], communicationAddress = None,
      taxContributingCountry = [], foreignTinId = Some ''''\<rparr>"

definition initial_state :: form_state where
  "initial_state =
     \<lparr>formValues = defaultValues, showPreviousAddresses = False,
      showCommunicationAddress = False, showSecondNationality = False\<rparr>"

text \<open>The object literal that the handlers write for a new previous address.\<close>

definition emptyPreviousAddress :: previous_address where
  "emptyPreviousAddress =
     \<lparr>previous_address.address1 = '''', address2 = '''', address3 = Some '''',
      address4 = Some '''', postcode = '''', country = '''', yearsAtAddress = Num 0,
      monthsAtAddress = Num 0\<rparr>"

definition setPreviousAddresses :: "previous_address list \<Rightarrow> form_state \<Rightarrow> form_state" where
  "setPreviousAddresses v s = s\<lparr>formValues := (formValues s)\<lparr>previousAddresses := v\<rparr>\<rparr>"

definition totalMonths :: "individual \<Rightarrow> number" where
  "totalMonths v = num_add (num_mul (yearsAtAddress v) (Num 12)) (monthsAtAddress v)"

definition handleAddressTimeChange :: "form_state \<Rightarrow> form_state" where
  "handleAddressTimeChange s =
     (if num_lt (totalMonths (formValues s)) (Num 36) \<and> \<not> showPreviousAddresses s then
        setPreviousAddresses [emptyPreviousAddress] (s\<lparr>showPreviousAddresses := True\<rparr>)
      else if num_ge (totalMonths (formValues s)) (Num 36) \<and> showPreviousAddresses s then
        setPreviousAddresses [] (s\<lparr>showPreviousAddresses := False\<rparr>)
      else s)"

definition emptyCommunicationAddress :: communication_address where
  "emptyCommunicationAddress =
     \<lparr>communication_address.address1 = '''', address2 = '''', address3 = Some '''',
      address4 = Some '''', postcode = '''', country = ''''\<rparr>"

definition handleCommunicationAddressChange :: "bool \<Rightarrow> form_state \<Rightarrow> form_state" where
  "handleCommunicationAddressChange checked s =
     (let s' = s\<lparr>showCommunicationAddress := \<not> checked\<rparr> in
      if checked then s'\<lparr>formValues := (formValues s')\<lparr>communicationAddress := None\<rparr>\<rparr>
      else s'\<lparr>formValues :=
                (formValues s')\<lparr>communicationAddress := Some emptyCommunicationAddress\<rparr>\<rparr>)"

definition handleDualNationalityChange :: "bool \<Rightarrow> form_state \<Rightarrow> form_state" where
  "handleDualNationalityChange checked s =
     (let s' = s\<lparr>showSecondNationality := checked\<rparr> in
      if \<not> checked then s'\<lparr>formValues := (formValues s')\<lparr>secondNationality := Some ''''\<rparr>\<rparr>
      else s')"

definition addPreviousAddress :: "form_state \<Rightarrow> form_state" where
  "addPreviousAddress s =
     (let currentAddresses = previousAddresses (formValues s) in
      if length currentAddresses < 3 then
        setPreviousAddresses (currentAddresses @ [emptyPreviousAddress]) s
      else s)"

subsection \<open>The controls of the form\<close>

text \<open>
  One event for each control that the component renders.  A text input or a select
  writes its string into its field; a number input writes \<open>parseInt\<close> of its text,
  which the event carries as a number; a checkbox writes its state.  The controls of a
  previous address are rendered for the entries of the list and while the section is
  shown, those of the communication address while its section is shown: an event for
  one of these controls in another state leaves the state as it is.  Every other event
  runs its handler in every state.
\<close>

datatype address_field = Address1 | Address2 | Address3 | Address4 | Postcode | Country

datatype text_field =
    PstrId | Title | FirstName | MiddleName | Surname | DateOfBirth | Gender
  | PrimaryNationality | CountryOfBirth | SecondNationality | Telephone | Mobile | Email
  | TypeOfEmployment | Occupation | Address address_field | ForeignTinId

datatype flag_field = IsSigner | IsTrusteeOfScheme | IsCurrentAddress | IsPermanentAddress

datatype event =
    Change_text text_field string
  | Change_employeeId number
  | Change_flag flag_field bool
  | Change_hasDualNationality bool
  | Check_marketingPreference string bool
  | Change_isCommunicationAddress bool
  | Change_yearsAtAddress number
  | Change_monthsAtAddress number
  | Change_previousAddress_text nat address_field string
  | Change_previousAddress_years nat number
  | Change_previousAddress_months nat number
  | Click_addPreviousAddress
  | Change_communicationAddress address_field string
  | Select_taxContributingCountry string
  | Remove_taxContributingCountry string

fun set_text :: "text_field \<Rightarrow> string \<Rightarrow> individual \<Rightarrow> individual" where
  "set_text PstrId v r = r\<lparr>pstrId := v\<rparr>"
| "set_text Title v r = r\<lparr>title := v\<rparr>"
| "set_text FirstName v r = r\<lparr>firstName := v\<rparr>"
| "set_text MiddleName v r = r\<lparr>middleName := Some v\<rparr>"
| "set_text Surname v r = r\<lparr>surname := v\<rparr>"
| "set_text DateOfBirth v r = r\<lparr>dateOfBirth := v\<rparr>"
| "set_text Gender v r = r\<lparr>gender := v\<rparr>"
| "set_text PrimaryNationality v r = r\<lparr>primaryNationality := v\<rparr>"
| "set_text CountryOfBirth v r = r\<lparr>countryOfBirth := v\<rparr>"
| "set_text SecondNationality v r = r\<lparr>secondNationality := Some v\<rparr>"
| "set_text Telephone v r = r\<lparr>telephone := v\<rparr>"
| "set_text Mobile v r = r\<lparr>mobile := v\<rparr>"
| "set_text Email v r = r\<lparr>email := v\<rparr>"
| "set_text TypeOfEmployment v r = r\<lparr>typeOfEmployment := v\<rparr>"
| "set_text Occupation v r = r\<lparr>occupation := v\<rparr>"
| "set_text (Address Address1) v r = r\<lparr>address1 := v\<rparr>"
| "set_text (Address Address2) v r = r\<lparr>address2 := v\<rparr>"
| "set_text (Address Address3) v r = r\<lparr>address3 := Some v\<rparr>"
| "set_text (Address Address4) v r = r\<lparr>address4 := Some v\<rparr>"
| "set_text (Address Postcode) v r = r\<lparr>postcode := v\<rparr>"
| "set_text (Address Country) v r = r\<lparr>country := v\<rparr>"
| "set_text ForeignTinId v r = r\<lparr>foreignTinId := Some v\<rparr>"

fun set_flag :: "flag_field \<Rightarrow> bool \<Rightarrow> individual \<Rightarrow> individual" where
  "set_flag IsSigner v r = r\<lparr>isSigner := v\<rparr>"
| "set_flag IsTrusteeOfScheme v r = r\<lparr>isTrusteeOfScheme := v\<rparr>"
| "set_flag IsCurrentAddress v r = r\<lparr>isCurrentAddress := v\<rparr>"
| "set_flag IsPermanentAddress v r = r\<lparr>isPermanentAddress := v\<rparr>"

fun set_previous_address_text ::
  "address_field \<Rightarrow> string \<Rightarrow> previous_address \<Rightarrow> previous_address" where
  "set_previous_address_text Address1 v a = a\<lparr>previous_address.address1 := v\<rparr>"
| "set_previous_address_text Address2 v a = a\<lparr>previous_address.address2 := v\<rparr>"
| "set_previous_address_text Address3 v a = a\<lparr>previous_address.address3 := Some v\<rparr>"
| "set_previous_address_text Address4 v a = a\<lparr>previous_address.address4 := Some v\<rparr>"
| "set_previous_address_text Postcode v a = a\<lparr>previous_address.postcode := v\<rparr>"
| "set_previous_address_text Country v a = a\<lparr>previous_address.country := v\<rparr>"

fun set_communication_address_text ::
  "address_field \<Rightarrow> string \<Rightarrow> communication_address \<Rightarrow> communication_address" where
  "set_communication_address_text Address1 v a = a\<lparr>communication_address.address1 := v\<rparr>"
| "set_communication_address_text Address2 v a = a\<lparr>communication_address.address2 := v\<rparr>"
| "set_communication_address_text Address3 v a =
     a\<lparr>communication_address.address3 := Some v\<rparr>"
| "set_communication_address_text Address4 v a =
     a\<lparr>communication_address.address4 := Some v\<rparr>"
| "set_communication_address_text Postcode v a = a\<lparr>communication_address.postcode := v\<rparr>"
| "set_communication_address_text Country v a = a\<lparr>communication_address.country := v\<rparr>"

definition setValues :: "(individual \<Rightarrow> individual) \<Rightarrow> form_state \<Rightarrow> form_state" where
  "setValues f s = s\<lparr>formValues := f (formValues s)\<rparr>"

definition change_previous_address ::
  "nat \<Rightarrow> (previous_address \<Rightarrow> previous_address) \<Rightarrow> form_state \<Rightarrow> form_state" where
  "change_previous_address i f s =
     (let xs = previousAddresses (formValues s) in
      if showPreviousAddresses s \<and> i < length xs
      then setPreviousAddresses (xs[i := f (xs ! i)]) s
      else s)"

fun handle :: "event \<Rightarrow> form_state \<Rightarrow> form_state" where
  "handle (Change_text f v) s = setValues (set_text f v) s"
| "handle (Change_employeeId n) s = setValues (\<lambda>r. r\<lparr>employeeId := n\<rparr>) s"
| "handle (Change_flag f v) s = setValues (set_flag f v) s"
| "handle (Change_hasDualNationality checked) s =
     handleDualNationalityChange checked
       (setValues (\<lambda>r. r\<lparr>hasDualNationality := checked\<rparr>) s)"
| "handle (Check_marketingPreference pref checked) s =
     setValues (\<lambda>r. r\<lparr>marketingPreferences :=
       (if checked then marketingPreferences r @ [pref]
        else filter (\<lambda>v. v \<noteq> pref) (marketingPreferences r))\<rparr>) s"
| "handle (Change_isCommunicationAddress checked) s =
     handleCommunicationAddressChange checked
       (setValues (\<lambda>r. r\<lparr>isCommunicationAddress := checked\<rparr>) s)"
| "handle (Change_yearsAtAddress n) s =
     handleAddressTimeChange (setValues (\<lambda>r. r\<lparr>yearsAtAddress := n\<rparr>) s)"
| "handle (Change_monthsAtAddress n) s =
     handleAddressTimeChange (setValues (\<lambda>r. r\<lparr>monthsAtAddress := n\<rparr>) s)"
| "handle (Change_previousAddress_text i f v) s =
     change_previous_address i (set_previous_address_text f v) s"
| "handle (Change_previousAddress_years i n) s =
     change_previous_address i (\<lambda>a. a\<lparr>previous_address.yearsAtAddress := n\<rparr>) s"
| "handle (Change_previousAddress_months i n) s =
     change_previous_address i (\<lambda>a. a\<lparr>previous_address.monthsAtAddress := n\<rparr>) s"
| "handle Click_addPreviousAddress s = addPreviousAddress s"
| "handle (Change_communicationAddress f v) s =
     (case communicationAddress (formValues s) of
        None \<Rightarrow> s
      | Some a \<Rightarrow>
          if showCommunicationAddress s
          then setValues (\<lambda>r. r\<lparr>communicationAddress :=
                 Some (set_communication_address_text f v a)\<rparr>) s
          else s)"
| "handle (Select_taxContributingCountry v) s =
     setValues (\<lambda>r. if v \<in> set (taxContributingCountry r) then r
                    else r\<lparr>taxContributingCountry := taxContributingCountry r @ [v]\<rparr>) s"
| "handle (Remove_taxContributingCountry c) s =
     setValues (\<lambda>r. r\<lparr>taxContributingCountry :=
       filter (\<lambda>x. x \<noteq> c) (taxContributingCountry r)\<rparr>) s"

text \<open>The state after a sequence of events, from the state of the mounted form.\<close>

definition run :: "event list \<Rightarrow> form_state" where
  "run events = foldl (\<lambda>s e. handle e s) initial_state events"

subsection \<open>Sample records\<close>

text \<open>
  A record of each form that its schema accepts, and a stand-in for the e-mail test of
  zod, for the concrete checks below.
\<close>

definition has_at_sign :: "string \<Rightarrow> bool" where
  "has_at_sign v = (CHR ''@'' \<in> set v)"

definition sample_individual :: individual where
  "sample_individual =
     \<lparr>pstrId = ''00012345RA'', employeeId = Num 1, title = ''Ms'', firstName = ''Ada'',
      middleName = None, surname = ''Byron'', isSigner = True, isTrusteeOfScheme = False,
      dateOfBirth = ''1980-12-10'', gender = ''female'', primaryNationality = ''British'',
      countryOfBirth = ''GB'', hasDualNationality = False, secondNationality = Some ''French'',
      telephone = ''00441234567890'', mobile = ''7123456789'', email = ''ada@example.org'',
      typeOfEmployment = ''employed'', occupation = ''Engineer'',
      marketingPreferences = [], address1 = ''1'', address2 = ''High Street'',
      address3 = None, address4 = None, postcode = ''AB1 2CD'', country = ''GB'',
      isCurrentAddress = True, isPermanentAddress = True, isCommunicationAddress = True,
      yearsAtAddress = Num 4, monthsAtAddress = Num 2, previousAddresses = [],
      communicationAddress = None, taxContributingCountry = [''GB''],
      foreignTinId = None\<rparr>"

definition sample_corporate :: corporate where
  "sample_corporate =
     \<lparr>corporate.pstrId = ''00012345RA'', pensionSchemeName = ''Byron SSAS'',
      contactName = ''Ada Byron'', positionInOrganization = ''Director'',
      pensionProvider = ''Provider Ltd'', telephone = ''00441234567890'',
      mobile = ''00447123456789'', email = ''ada@example.org'', addressType = ''business'',
      address1 = ''1'', address2 = ''High Street'', address3 = None, address4 = None,
      postcode = ''AB1 2CD'', country = ''GB'', isCurrentAddress = True,
      isPermanentAddress = True, isCommunicationAddress = True, howManyToSign = Num 2,
      howManyFromCorporateTrustee = Num 0, howManyMembers = Num 3,
      isOccupationalScheme = True, permitAssignmentOfInterest = False,
      hasDeductionFromEmployeeWages = False, dateOfRegistration = ''2020-01-01'',
      hasCorporateTrustee = False, depositPerAnnum = Num 1000, annualOutgoings = Num 500,
      anticipatedActivity = Num 10, anticipatedTransactions = Num 12,
      countryOfPayments = [''GB''], schemeRegistrationCountry = ''United Kingdom'',
      contributorLegalName = ''Byron Engines Ltd'', contributorTradingName = None,
      contributorAddress1 = ''1 High Street'', contributorAddress2 = None,
      contributorAddress3 = None, contributorAddress4 = None,
      contributorPostcode = ''AB1 2CD'', contributorCountry = ''GB'',
      contributorDateOfIncorporation = ''2001-02-03'',
      contributorDateOfRegistration = ''2001-02-04'',
      contributorDateStartedTrading = ''2001-03-01'',
      contributorNatureOfBusiness = ''Engineering'', contributorCountriesOperatesIn = [''GB''],
      contributorManagement =
        [\<lparr>management_person.firstName = ''Ada'', middleName = None, surname = ''Byron'',
          position = ''Director''\<rparr>],
      professionalCoSignatory = ''C. Babbage'', coSignCompanyName = ''Difference Ltd'',
      coSignAddress = ''2 Low Road'', coSignTelephone = ''00441234567891'',
      coSignEmail = ''cb@example.org'', regulatorReferenceNumber = ''R-1'',
      tcAcknowledgement = True, accountType = [''current''], openingBalance = ''1000'',
      sourceOfInitialFunds = ''contributions'', sourceOfFunds = [''salary''],
      otherSourceOfFunds = None, valueOfFunds = ''1000'', countryOfFunds = [''GB'']\<rparr>"

section \<open>Properties of the formatting utilities\<close>

subsection \<open>Digits\<close>

lemma is_digit_cases:
  "is_digit c \<longleftrightarrow>
     c = CHR ''0'' \<or> c = CHR ''1'' \<or> c = CHR ''2'' \<or> c = CHR ''3'' \<or> c = CHR ''4'' \<or>
     c = CHR ''5'' \<or> c = CHR ''6'' \<or> c = CHR ''7'' \<or> c = CHR ''8'' \<or> c = CHR ''9''"
  by (auto simp: is_digit_def)

lemma below_ten_cases:
  "d < 10 \<Longrightarrow> d = 0 \<or> d = 1 \<or> d = 2 \<or> d = 3 \<or> d = 4 \<or> d = 5 \<or> d = 6 \<or> d = 7 \<or> d = 8 \<or> d = (9::nat)"
  by arith

lemma digit_val_digit_char: "d < 10 \<Longrightarrow> digit_val (digit_char d) = d"
  using below_ten_cases [of d] by (auto simp: digit_val_def digit_char_def)

lemma digit_char_digit_val: "is_digit c \<Longrightarrow> digit_char (digit_val c) = c"
  by (auto simp: is_digit_cases digit_val_def digit_char_def)

lemma digit_val_less: "is_digit c \<Longrightarrow> digit_val c < 10"
  by (auto simp: is_digit_cases digit_val_def)

lemma is_digit_digit_char: "is_digit (digit_char d)"
proof -
  have "d mod 10 < 10" by simp
  from below_ten_cases [OF this] show ?thesis
    by (auto simp: is_digit_def digit_char_def)
qed

lemma digit_char_mod: "digit_char (d mod 10) = digit_char d"
  by (simp add: digit_char_def)

lemma digit_char_eqI: "is_digit c \<Longrightarrow> n mod 10 = digit_val c \<Longrightarrow> digit_char n = c"
  using digit_char_mod [of n] by (simp add: digit_char_digit_val)

lemma horner4:
  fixes a b c d :: nat
  assumes "b < 10" "c < 10" "d < 10"
  shows "(1000 * a + 100 * b + 10 * c + d) div 1000 = a"
    and "(1000 * a + 100 * b + 10 * c + d) div 100 = 10 * a + b"
    and "(1000 * a + 100 * b + 10 * c + d) div 10 = 10 * (10 * a + b) + c"
    and "(1000 * a + 100 * b + 10 * c + d) = 10 * (10 * (10 * a + b) + c) + d"
proof -
  show "(1000 * a + 100 * b + 10 * c + d) div 1000 = a" using assms by linarith
  show "(1000 * a + 100 * b + 10 * c + d) div 100 = 10 * a + b" using assms by linarith
  have "(1000 * a + 100 * b + 10 * c + d) = 10 * (100 * a + 10 * b + c) + d" by simp
  then have "(1000 * a + 100 * b + 10 * c + d) div 10 = 100 * a + 10 * b + c"
    using assms(3) by (simp only: div_mult_self3 div_less)
  then show "(1000 * a + 100 * b + 10 * c + d) div 10 = 10 * (10 * a + b) + c" by simp
  show "(1000 * a + 100 * b + 10 * c + d) = 10 * (10 * (10 * a + b) + c) + d" by simp
qed

lemma digit_char_add_tens: "digit_char (10 * k + d) = digit_char d"
  by (simp add: digit_char_def)

lemma two_digits_val:
  assumes "is_digit a" "is_digit b"
  shows "two_digits (10 * digit_val a + digit_val b) = [a, b]"
proof -
  let ?n = "10 * digit_val a + digit_val b"
  have l: "digit_val a < 10" "digit_val b < 10"
    using assms by (simp_all add: digit_val_less)
  have "(?n div 10) mod 10 = digit_val a" "?n mod 10 = digit_val b"
    using l by simp_all
  then show ?thesis
    using assms by (simp add: two_digits_def digit_char_eqI)
qed

lemma four_digits_val:
  assumes "is_digit a" "is_digit b" "is_digit c" "is_digit d"
  shows "four_digits (1000 * digit_val a + 100 * digit_val b + 10 * digit_val c + digit_val d)
           = [a, b, c, d]"
proof -
  let ?n = "1000 * digit_val a + 100 * digit_val b + 10 * digit_val c + digit_val d"
  have l: "digit_val b < 10" "digit_val c < 10" "digit_val d < 10"
    using assms by (simp_all add: digit_val_less)
  note h = horner4 [OF l, of "digit_val a"]
  have "digit_char (?n div 1000) = a"
    unfolding h(1) using assms(1) by (rule digit_char_digit_val)
  moreover have "digit_char (?n div 100) = b"
    unfolding h(2) digit_char_add_tens using assms(2) by (rule digit_char_digit_val)
  moreover have "digit_char (?n div 10) = c"
    unfolding h(3) digit_char_add_tens using assms(3) by (rule digit_char_digit_val)
  moreover have "digit_char ?n = d"
    unfolding h(4) digit_char_add_tens using assms(4) by (rule digit_char_digit_val)
  ultimately show ?thesis
    unfolding four_digits_def by (simp only:)
qed

lemma four_digits_bound:
  assumes "is_digit a" "is_digit b" "is_digit c" "is_digit d"
  shows "1000 * digit_val a + 100 * digit_val b + 10 * digit_val c + digit_val d < 10000"
  using assms [THEN digit_val_less] by simp

lemma is_digit_four_digits: "list_all is_digit (four_digits n)"
  by (simp add: four_digits_def is_digit_digit_char)


subsection \<open>The phone formatter\<close>

lemma replace_2_4_6_short: "length s < 12 \<Longrightarrow> replace_2_4_6 s = s"
  by (induction s) (auto simp: digits_at_def)

lemma replace_2_4_6_digits:
  "12 \<le> length s \<Longrightarrow> list_all is_digit s \<Longrightarrow> replace_2_4_6 s = regroup_2_4_6 s"
  by (cases s) (auto simp: digits_at_def list_all_iff dest: in_set_takeD)

lemma list_all_strip_non_digits: "list_all is_digit (strip_non_digits s)"
  by (simp add: strip_non_digits_def list_all_iff)

text \<open>
  Claim C1, as the code has it.  When the input has fewer than twelve digits,
  \<open>formatPhoneNumber\<close> returns its digits unchanged.  When it has twelve digits or more,
  the first twelve are regrouped as \<^verbatim>\<open>+DD DDDD DDDDDD\<close> and the digits after them follow
  unchanged.
\<close>

theorem formatPhoneNumber_short_or_regrouped:
  "(length (strip_non_digits number) < 12 \<longrightarrow>
      formatPhoneNumber number = strip_non_digits number) \<and>
   (12 \<le> length (strip_non_digits number) \<longrightarrow>
      formatPhoneNumber number = regroup_2_4_6 (strip_non_digits number))"
  by (simp add: formatPhoneNumber_def replace_2_4_6_short replace_2_4_6_digits
      list_all_strip_non_digits)

theorem formatPhoneNumber_short_or_regrouped_witness:
  "length (strip_non_digits ''01234 567890'') < 12 \<and>
   formatPhoneNumber ''01234 567890'' = ''01234567890'' \<and>
   12 \<le> length (strip_non_digits ''44 1234 567890 12'') \<and>
   formatPhoneNumber ''44 1234 567890 12'' = ''+44 1234 56789012''"
  using formatPhoneNumber_short_or_regrouped [of "''01234 567890''"]
    formatPhoneNumber_short_or_regrouped [of "''44 1234 567890 12''"]
  by (simp add: strip_non_digits_def is_digit_def regroup_2_4_6_def)

text \<open>
  Claim C1, as the specification states it, fails on an input with fourteen digits, the
  length that the form schemas ask of a telephone number: the result is not the
  digit-stripped input.
\<close>

theorem formatPhoneNumber_passthrough_counterexample:
  "length (strip_non_digits ''44123456789012'') \<noteq> 12 \<and>
   formatPhoneNumber ''44123456789012'' \<noteq> strip_non_digits ''44123456789012''"
  by (simp add: formatPhoneNumber_def strip_non_digits_def is_digit_def digits_at_def
      regroup_2_4_6_def)

subsection \<open>The date validator\<close>

lemma digit_val_simps:
  "digit_val (CHR ''0'') = 0" "digit_val (CHR ''1'') = 1" "digit_val (CHR ''2'') = 2"
  "digit_val (CHR ''3'') = 3" "digit_val (CHR ''4'') = 4" "digit_val (CHR ''5'') = 5"
  "digit_val (CHR ''6'') = 6" "digit_val (CHR ''7'') = 7" "digit_val (CHR ''8'') = 8"
  "digit_val (CHR ''9'') = 9"
  by (simp_all add: digit_val_def)

lemma digit_char_simps:
  "digit_char 0 = CHR ''0''" "digit_char 1 = CHR ''1''" "digit_char 2 = CHR ''2''"
  "digit_char 3 = CHR ''3''" "digit_char 4 = CHR ''4''" "digit_char 5 = CHR ''5''"
  "digit_char 6 = CHR ''6''" "digit_char 7 = CHR ''7''" "digit_char 8 = CHR ''8''"
  "digit_char 9 = CHR ''9''" "digit_char (Suc 0) = CHR ''1''"
  by (simp_all add: digit_char_def)

lemma below_four_cases: "t < 4 \<Longrightarrow> t = 0 \<or> t = 1 \<or> t = 2 \<or> t = (3::nat)"
  by arith

lemma tens_units:
  fixes n :: nat
  obtains t u where "n = 10 * t + u" "u < 10" "t = n div 10" "u = n mod 10"
  by simp

lemma day_digits_cases:
  assumes tu: "t < 4" "u < 10" "t = 0 \<longrightarrow> 1 \<le> u" "t = 3 \<longrightarrow> u \<le> (1::nat)"
  shows "day_digits (digit_char t) (digit_char u)"
proof -
  from below_four_cases [OF tu(1)] show ?thesis
  proof (elim disjE)
    assume "t = 0"
    with tu have "1 \<le> u" by simp
    with below_ten_cases [OF tu(2)] \<open>t = 0\<close> show ?thesis
      by (elim disjE) (simp_all add: day_digits_def digit_char_simps)
  next
    assume "t = 1"
    with below_ten_cases [OF tu(2)] show ?thesis
      by (elim disjE) (simp_all add: day_digits_def digit_char_simps is_digit_def)
  next
    assume "t = 2"
    with below_ten_cases [OF tu(2)] show ?thesis
      by (elim disjE) (simp_all add: day_digits_def digit_char_simps is_digit_def)
  next
    assume "t = 3"
    with tu have "u = 0 \<or> u = 1" by auto
    with \<open>t = 3\<close> show ?thesis
      by (elim disjE) (simp_all add: day_digits_def digit_char_simps)
  qed
qed

lemma month_digits_cases:
  assumes tu: "t < 2" "u < 10" "t = 0 \<longrightarrow> 1 \<le> u" "t = 1 \<longrightarrow> u \<le> (2::nat)"
  shows "month_digits (digit_char t) (digit_char u)"
proof (cases "t = 0")
  case True
  with tu have "1 \<le> u" by simp
  with below_ten_cases [OF tu(2)] True show ?thesis
    by (elim disjE) (simp_all add: month_digits_def digit_char_simps)
next
  case False
  with tu have "t = 1" "u = 0 \<or> u = 1 \<or> u = 2" by auto
  then show ?thesis
    by (elim disjE) (simp_all add: month_digits_def digit_char_simps)
qed

lemma day_digits_two_digits:
  assumes "1 \<le> dd" "dd \<le> 31"
  shows "day_digits (digit_char (dd div 10)) (digit_char dd)"
proof -
  obtain t u where tu: "dd = 10 * t + u" "u < 10" "t = dd div 10" "u = dd mod 10"
    by (rule tens_units)
  from assms tu(1,2) have "t < 4" "t = 0 \<longrightarrow> 1 \<le> u" "t = 3 \<longrightarrow> u \<le> 1"
    by auto
  with tu(2) have "day_digits (digit_char t) (digit_char u)"
    by (simp add: day_digits_cases)
  then show ?thesis
    unfolding tu(3,4) by (simp only: digit_char_mod)
qed

lemma month_digits_two_digits:
  assumes "1 \<le> mm" "mm \<le> 12"
  shows "month_digits (digit_char (mm div 10)) (digit_char mm)"
proof -
  obtain t u where tu: "mm = 10 * t + u" "u < 10" "t = mm div 10" "u = mm mod 10"
    by (rule tens_units)
  from assms tu(1,2) have "t < 2" "t = 0 \<longrightarrow> 1 \<le> u" "t = 1 \<longrightarrow> u \<le> 2"
    by auto
  with tu(2) have "month_digits (digit_char t) (digit_char u)"
    by (simp add: month_digits_cases)
  then show ?thesis
    unfolding tu(3,4) by (simp only: digit_char_mod)
qed

lemma day_digits_iff:
  "day_digits a b \<longleftrightarrow> (\<exists>dd. 1 \<le> dd \<and> dd \<le> 31 \<and> [a, b] = two_digits dd)"
proof
  assume h: "day_digits a b"
  then have d: "is_digit a" "is_digit b"
    by (auto simp: day_digits_def is_digit_def)
  let ?dd = "10 * digit_val a + digit_val b"
  from h have "1 \<le> ?dd \<and> ?dd \<le> 31"
    by (auto simp: day_digits_def is_digit_def digit_val_simps)
  moreover have "[a, b] = two_digits ?dd"
    using d by (simp add: two_digits_val)
  ultimately show "\<exists>dd. 1 \<le> dd \<and> dd \<le> 31 \<and> [a, b] = two_digits dd" by blast
next
  assume "\<exists>dd. 1 \<le> dd \<and> dd \<le> 31 \<and> [a, b] = two_digits dd"
  then obtain dd where dd: "1 \<le> dd" "dd \<le> 31" "[a, b] = two_digits dd" by blast
  from day_digits_two_digits [OF dd(1,2)] dd(3) show "day_digits a b"
    by (simp add: two_digits_def)
qed

lemma month_digits_iff:
  "month_digits a b \<longleftrightarrow> (\<exists>mm. 1 \<le> mm \<and> mm \<le> 12 \<and> [a, b] = two_digits mm)"
proof
  assume h: "month_digits a b"
  then have d: "is_digit a" "is_digit b"
    by (auto simp: month_digits_def is_digit_def)
  let ?mm = "10 * digit_val a + digit_val b"
  from h have "1 \<le> ?mm \<and> ?mm \<le> 12"
    by (auto simp: month_digits_def digit_val_simps)
  moreover have "[a, b] = two_digits ?mm"
    using d by (simp add: two_digits_val)
  ultimately show "\<exists>mm. 1 \<le> mm \<and> mm \<le> 12 \<and> [a, b] = two_digits mm" by blast
next
  assume "\<exists>mm. 1 \<le> mm \<and> mm \<le> 12 \<and> [a, b] = two_digits mm"
  then obtain mm where mm: "1 \<le> mm" "mm \<le> 12" "[a, b] = two_digits mm" by blast
  from month_digits_two_digits [OF mm(1,2)] mm(3) show "month_digits a b"
    by (simp add: two_digits_def)
qed

lemma year_digits_iff:
  "is_digit a \<and> is_digit b \<and> is_digit c \<and> is_digit d \<longleftrightarrow>
     (\<exists>yyyy<10000. [a, b, c, d] = four_digits yyyy)"
proof
  assume h: "is_digit a \<and> is_digit b \<and> is_digit c \<and> is_digit d"
  then show "\<exists>yyyy<10000. [a, b, c, d] = four_digits yyyy"
    using four_digits_val [of a b c d] four_digits_bound [of a b c d] by metis
next
  assume "\<exists>yyyy<10000. [a, b, c, d] = four_digits yyyy"
  then obtain yyyy where "[a, b, c, d] = four_digits yyyy" by blast
  then show "is_digit a \<and> is_digit b \<and> is_digit c \<and> is_digit d"
    by (simp add: four_digits_def is_digit_digit_char)
qed

lemma length_two_digits: "length (two_digits n) = 2"
  by (simp add: two_digits_def)

lemma length_four_digits: "length (four_digits n) = 4"
  by (simp add: four_digits_def)

text \<open>
  Claim C10.  \<open>validateDate\<close> accepts exactly the strings \<^verbatim>\<open>dd-MM-yyyy\<close> whose day is
  between 01 and 31, whose month is between 01 and 12 and whose year has four digits; it
  does not look at the calendar, so it accepts the 31st of February.
\<close>

theorem validateDate_iff_dashed_date:
  "(validateDate date \<longleftrightarrow>
      (\<exists>dd mm yyyy. 1 \<le> dd \<and> dd \<le> 31 \<and> 1 \<le> mm \<and> mm \<le> 12 \<and> yyyy < 10000 \<and>
         date = dashed_date dd mm yyyy)) \<and>
   validateDate ''31-02-2024''"
proof (intro conjI iffI)
  assume v: "validateDate date"
  then obtain d1 d2 m1 m2 y1 y2 y3 y4 where
    date: "date = [d1, d2, CHR ''-'', m1, m2, CHR ''-'', y1, y2, y3, y4]"
    and ok: "day_digits d1 d2" "month_digits m1 m2"
      "is_digit y1 \<and> is_digit y2 \<and> is_digit y3 \<and> is_digit y4"
    by (rule validateDate.elims(2)) blast
  from ok(1) obtain dd where dd: "1 \<le> dd" "dd \<le> 31" "[d1, d2] = two_digits dd"
    unfolding day_digits_iff by blast
  from ok(2) obtain mm where mm: "1 \<le> mm" "mm \<le> 12" "[m1, m2] = two_digits mm"
    unfolding month_digits_iff by blast
  from ok(3) obtain yyyy where yy: "yyyy < 10000" "[y1, y2, y3, y4] = four_digits yyyy"
    unfolding year_digits_iff by blast
  have "date = dashed_date dd mm yyyy"
    unfolding dashed_date_def dd(3) [symmetric] mm(3) [symmetric] yy(2) [symmetric] date
    by simp
  with dd mm yy show "\<exists>dd mm yyyy. 1 \<le> dd \<and> dd \<le> 31 \<and> 1 \<le> mm \<and> mm \<le> 12 \<and> yyyy < 10000 \<and>
         date = dashed_date dd mm yyyy" by blast
next
  assume "\<exists>dd mm yyyy. 1 \<le> dd \<and> dd \<le> 31 \<and> 1 \<le> mm \<and> mm \<le> 12 \<and> yyyy < 10000 \<and>
         date = dashed_date dd mm yyyy"
  then obtain dd mm yyyy where b: "1 \<le> dd" "dd \<le> 31" "1 \<le> mm" "mm \<le> 12"
    and date: "date = dashed_date dd mm yyyy" by blast
  show "validateDate date"
    unfolding date dashed_date_def two_digits_def four_digits_def
    using day_digits_two_digits [OF b(1,2)] month_digits_two_digits [OF b(3,4)]
    by (simp add: is_digit_digit_char)
next
  show "validateDate ''31-02-2024''"
    by (simp add: day_digits_def month_digits_def is_digit_def)
qed

subsection \<open>Soft failures\<close>










section \<open>Properties of the schemas\<close>

lemma sample_individual_accepted: "individualFormSchema has_at_sign [] sample_individual = []"
  by (simp add: individualFormSchema_def sample_individual_def has_at_sign_def z_min_def
      z_max_def z_number_def z_number_min_def z_number_max_def z_regex_digits_def z_email_def
      z_array_def z_optional_def is_digit_def)

lemma sample_corporate_accepted: "corporateFormSchema has_at_sign [] sample_corporate = []"
  by (simp add: corporateFormSchema_def sample_corporate_def has_at_sign_def z_min_def
      z_max_def z_number_def z_number_min_def z_number_max_def z_regex_digits_def z_email_def
      z_array_def z_optional_def z_literal_def z_refine_def managementPersonSchema_def
      is_digit_def)

lemma individualFormSchema_nationality:
  "individualFormSchema isEmail p (r\<lparr>hasDualNationality := b, secondNationality := x\<rparr>)
     = individualFormSchema isEmail p r"
  by (simp add: individualFormSchema_def)

text \<open>
  Claim C6.  A record that the individual schema accepts is still accepted when
  \<open>hasDualNationality\<close> is false and \<open>secondNationality\<close> is any non-empty string: no
  rule of the schema relates the two fields.
\<close>

theorem secondNationality_without_dual_nationality_accepted:
  assumes "individualFormSchema isEmail [] r = []" "nationality \<noteq> []"
  shows "individualFormSchema isEmail []
           (r\<lparr>hasDualNationality := False, secondNationality := Some nationality\<rparr>) = []"
  using assms(1) by (simp only: individualFormSchema_nationality)

theorem secondNationality_without_dual_nationality_accepted_witness:
  "individualFormSchema has_at_sign [] sample_individual = [] \<and> ''French'' \<noteq> [] \<and>
   sample_individual\<lparr>hasDualNationality := False, secondNationality := Some ''French''\<rparr>
     = sample_individual \<and>
   individualFormSchema has_at_sign []
     (sample_individual\<lparr>hasDualNationality := False, secondNationality := Some ''French''\<rparr>) = []"
  using secondNationality_without_dual_nationality_accepted
    [of has_at_sign sample_individual "''French''"] sample_individual_accepted
  by (simp add: sample_individual_def)

lemma schemeRegistrationCountry_issue:
  "schemeRegistrationCountry r \<noteq> ''United Kingdom'' \<Longrightarrow>
   (p @ [Key ''schemeRegistrationCountry''], None) \<in> set (corporateFormSchema isEmail p r)"
  by (simp add: corporateFormSchema_def z_literal_def)

text \<open>
  Claim C8.  The corporate schema accepts a record only if \<open>schemeRegistrationCountry\<close>
  is exactly \<^verbatim>\<open>United Kingdom\<close>; with any other value the record is rejected and
  an issue is reported on that field.
\<close>

theorem schemeRegistrationCountry_literal:
  "(corporateFormSchema isEmail [] r = [] \<longrightarrow>
      schemeRegistrationCountry r = ''United Kingdom'') \<and>
   (schemeRegistrationCountry r \<noteq> ''United Kingdom'' \<longrightarrow>
      ([Key ''schemeRegistrationCountry''], None) \<in> set (corporateFormSchema isEmail [] r) \<and>
      corporateFormSchema isEmail [] r \<noteq> [])"
proof (intro conjI impI)
  assume accepted: "corporateFormSchema isEmail [] r = []"
  show "schemeRegistrationCountry r = ''United Kingdom''"
  proof (rule ccontr)
    assume "schemeRegistrationCountry r \<noteq> ''United Kingdom''"
    from schemeRegistrationCountry_issue [OF this, of "[]" isEmail]
    have "([Key ''schemeRegistrationCountry''], None) \<in> set (corporateFormSchema isEmail [] r)"
      by simp
    with accepted show False by simp
  qed
next
  assume other: "schemeRegistrationCountry r \<noteq> ''United Kingdom''"
  from schemeRegistrationCountry_issue [OF this, of "[]" isEmail]
  show "([Key ''schemeRegistrationCountry''], None) \<in> set (corporateFormSchema isEmail [] r)"
    by simp
  then show "corporateFormSchema isEmail [] r \<noteq> []"
    by (rule contrapos_pn) simp
qed

theorem schemeRegistrationCountry_literal_witness:
  "corporateFormSchema has_at_sign [] sample_corporate = [] \<and>
   schemeRegistrationCountry sample_corporate = ''United Kingdom'' \<and>
   schemeRegistrationCountry (sample_corporate\<lparr>schemeRegistrationCountry := ''united kingdom''\<rparr>)
     \<noteq> ''United Kingdom'' \<and>
   corporateFormSchema has_at_sign []
     (sample_corporate\<lparr>schemeRegistrationCountry := ''united kingdom''\<rparr>)
     = [([Key ''schemeRegistrationCountry''], None)]"
  using schemeRegistrationCountry_literal [of has_at_sign sample_corporate]
    schemeRegistrationCountry_literal
      [of has_at_sign "sample_corporate\<lparr>schemeRegistrationCountry := ''united kingdom''\<rparr>"]
    sample_corporate_accepted
  by (simp add: corporateFormSchema_def sample_corporate_def has_at_sign_def z_min_def
      z_max_def z_number_def z_number_min_def z_number_max_def z_regex_digits_def z_email_def
      z_array_def z_optional_def z_literal_def z_refine_def managementPersonSchema_def
      is_digit_def)

section \<open>Properties of the individual form\<close>


lemma showPreviousAddresses_setValues [simp]:
  "showPreviousAddresses (setValues f s) = showPreviousAddresses s"
  by (simp add: setValues_def)

lemma formValues_setValues [simp]: "formValues (setValues f s) = f (formValues s)"
  by (simp add: setValues_def)









text \<open>
  Claim C7.  Called with \<open>true\<close>, the toggle removes the communication address and
  hides its section; called with \<open>false\<close>, it writes a communication address whose six
  fields are empty strings and shows the section.
\<close>

theorem handleCommunicationAddressChange_polarity:
  "communicationAddress (formValues (handleCommunicationAddressChange True s)) = None \<and>
   \<not> showCommunicationAddress (handleCommunicationAddressChange True s) \<and>
   communicationAddress (formValues (handleCommunicationAddressChange False s)) =
     Some \<lparr>communication_address.address1 = '''', address2 = '''', address3 = Some '''',
           address4 = Some '''', postcode = '''', country = ''''\<rparr> \<and>
   showCommunicationAddress (handleCommunicationAddressChange False s)"
  by (simp add: handleCommunicationAddressChange_def emptyCommunicationAddress_def)

lemma previousAddresses_set_text [simp]:
  "previousAddresses (set_text f v r) = previousAddresses r"
  by (induction f v r rule: set_text.induct) simp_all

lemma previousAddresses_set_flag [simp]:
  "previousAddresses (set_flag f v r) = previousAddresses r"
  by (cases f) simp_all

lemma length_handleAddressTimeChange:
  "length (previousAddresses (formValues s)) \<le> 3 \<Longrightarrow>
   length (previousAddresses (formValues (handleAddressTimeChange s))) \<le> 3"
  by (simp add: handleAddressTimeChange_def setPreviousAddresses_def)

lemma length_addPreviousAddress:
  "length (previousAddresses (formValues s)) \<le> 3 \<Longrightarrow>
   length (previousAddresses (formValues (addPreviousAddress s))) \<le> 3"
  by (simp add: addPreviousAddress_def setPreviousAddresses_def Let_def)

lemma length_change_previous_address:
  "length (previousAddresses (formValues (change_previous_address i f s)))
     = length (previousAddresses (formValues s))"
  by (simp add: change_previous_address_def setPreviousAddresses_def Let_def)

lemma previousAddresses_handleCommunicationAddressChange:
  "previousAddresses (formValues (handleCommunicationAddressChange c s))
     = previousAddresses (formValues s)"
  by (simp add: handleCommunicationAddressChange_def Let_def)

lemma previousAddresses_handleDualNationalityChange:
  "previousAddresses (formValues (handleDualNationalityChange c s))
     = previousAddresses (formValues s)"
  by (simp add: handleDualNationalityChange_def Let_def)

lemma length_handle:
  assumes "length (previousAddresses (formValues s)) \<le> 3"
  shows "length (previousAddresses (formValues (handle e s))) \<le> 3"
proof (cases e)
  case (Change_yearsAtAddress n)
  show ?thesis unfolding Change_yearsAtAddress handle.simps
    using assms by (intro length_handleAddressTimeChange) simp
next
  case (Change_monthsAtAddress n)
  show ?thesis unfolding Change_monthsAtAddress handle.simps
    using assms by (intro length_handleAddressTimeChange) simp
next
  case Click_addPreviousAddress
  show ?thesis unfolding Click_addPreviousAddress handle.simps
    using assms by (rule length_addPreviousAddress)
next
  case (Change_communicationAddress f v)
  then show ?thesis using assms by (simp split: option.splits)
qed (use assms in \<open>simp_all add: length_change_previous_address
      previousAddresses_handleCommunicationAddressChange
      previousAddresses_handleDualNationalityChange\<close>)

lemma length_foldl_handle:
  "length (previousAddresses (formValues s)) \<le> 3 \<Longrightarrow>
   length (previousAddresses (formValues (foldl (\<lambda>s e. handle e s) s events))) \<le> 3"
  by (induction events arbitrary: s) (simp_all add: length_handle)

text \<open>
  Claim C4.  \<open>addPreviousAddress\<close> changes nothing when the list has three entries,
  every event keeps a list of at most three entries that short, and so the list has at
  most three entries in every state that a sequence of events reaches from the mounted
  form.
\<close>

theorem previousAddresses_at_most_three:
  "(3 \<le> length (previousAddresses (formValues s)) \<longrightarrow> addPreviousAddress s = s) \<and>
   (length (previousAddresses (formValues s)) \<le> 3 \<longrightarrow>
      length (previousAddresses (formValues (handle e s))) \<le> 3) \<and>
   length (previousAddresses (formValues (run events))) \<le> 3"
proof (intro conjI impI)
  show "addPreviousAddress s = s" if "3 \<le> length (previousAddresses (formValues s))"
    using that by (simp add: addPreviousAddress_def Let_def)
  show "length (previousAddresses (formValues (handle e s))) \<le> 3"
    if "length (previousAddresses (formValues s)) \<le> 3"
    using that by (rule length_handle)
  show "length (previousAddresses (formValues (run events))) \<le> 3"
    unfolding run_def
    by (rule length_foldl_handle) (simp add: initial_state_def defaultValues_def)
qed

lemma run_three: "previousAddresses (formValues (run [Change_yearsAtAddress (Num 2), Click_addPreviousAddress,
        Click_addPreviousAddress])) = [emptyPreviousAddress, emptyPreviousAddress, emptyPreviousAddress]"
  by (simp add: run_def initial_state_def defaultValues_def handleAddressTimeChange_def
      totalMonths_def num_add_def num_mul_def setPreviousAddresses_def addPreviousAddress_def Let_def)

theorem previousAddresses_at_most_three_witness:
  "3 \<le> length (previousAddresses (formValues
      (run [Change_yearsAtAddress (Num 2), Click_addPreviousAddress,
        Click_addPreviousAddress]))) \<and>
   handle Click_addPreviousAddress
     (run [Change_yearsAtAddress (Num 2), Click_addPreviousAddress, Click_addPreviousAddress])
     = run [Change_yearsAtAddress (Num 2), Click_addPreviousAddress, Click_addPreviousAddress] \<and>
   length (previousAddresses (formValues
      (run [Change_yearsAtAddress (Num 2), Click_addPreviousAddress,
        Click_addPreviousAddress, Click_addPreviousAddress]))) \<le> 3"
  using previousAddresses_at_most_three
    [of "run [Change_yearsAtAddress (Num 2), Click_addPreviousAddress, Click_addPreviousAddress]"
        Click_addPreviousAddress
        "[Change_yearsAtAddress (Num 2), Click_addPreviousAddress,
        Click_addPreviousAddress, Click_addPreviousAddress]"]
  by (simp add: run_three)

end
